theory Spec2Isabelle
  imports Complex_Main "HOL-Library.AList"
begin

section \<open>Values and the JSON codec\<close>

text \<open>
  A JavaScript \<open>number\<close> is either finite or one of the three non-finite IEEE values.
  Finite numbers are modelled by the rational they denote; only equality of numbers is
  used below, no arithmetic. Signed zero is not distinguished.
\<close>

datatype jsnumber = Finite rat | NaN | PosInfinity | NegInfinity

text \<open>
  \<open>ValueType = string | number | boolean | object | any[]\<close>, together with \<open>null\<close>,
  which \<open>get\<close> returns for an absent key and which may sit inside arrays and objects.
  An object is the list of its own properties, in the order in which they were defined;
  JavaScript lists keys that look like array indices first, which is not modelled, the
  order of the keys of an object having no meaning for the store.
\<close>

datatype jsval =
    JNull
  | JBool bool
  | JNumber jsnumber
  | JString string
  | JArray "jsval list"
  | JObject "(string \<times> jsval) list"

text \<open>
  The content of the \<open>value TEXT\<close> column is modelled by the JSON document that the text
  denotes; every text that the program writes is the output of \<open>JSON.stringify\<close>. JSON
  has no notation for non-finite numbers.
\<close>

datatype json_text =
    TNull
  | TBool bool
  | TNumber rat
  | TString string
  | TArray "json_text list"
  | TObject "(string \<times> json_text) list"

text \<open>\<open>JSON.stringify\<close>: a non-finite number is written as \<open>null\<close>.\<close>

fun JSON_stringify :: "jsval \<Rightarrow> json_text" where
  "JSON_stringify JNull = TNull"
| "JSON_stringify (JBool b) = TBool b"
| "JSON_stringify (JNumber (Finite q)) = TNumber q"
| "JSON_stringify (JNumber NaN) = TNull"
| "JSON_stringify (JNumber PosInfinity) = TNull"
| "JSON_stringify (JNumber NegInfinity) = TNull"
| "JSON_stringify (JString s) = TString s"
| "JSON_stringify (JArray xs) = TArray (map JSON_stringify xs)"
| "JSON_stringify (JObject ps) = TObject (map (map_prod id JSON_stringify) ps)"

fun JSON_parse :: "json_text \<Rightarrow> jsval" where
  "JSON_parse TNull = JNull"
| "JSON_parse (TBool b) = JBool b"
| "JSON_parse (TNumber q) = JNumber (Finite q)"
| "JSON_parse (TString s) = JString s"
| "JSON_parse (TArray xs) = JArray (map JSON_parse xs)"
| "JSON_parse (TObject ps) = JObject (map (map_prod id JSON_parse) ps)"

text \<open>The values that JSON can represent: every number in them is finite.\<close>

fun json_representable :: "jsval \<Rightarrow> bool" where
  "json_representable (JNumber n) = (case n of Finite q \<Rightarrow> True | _ \<Rightarrow> False)"
| "json_representable (JArray xs) = list_all json_representable xs"
| "json_representable (JObject ps) = list_all (\<lambda>p. json_representable (snd p)) ps"
| "json_representable v = True"

text \<open>The \<open>typeof\<close> operator: arrays and \<open>null\<close> are of type \<open>object\<close>.\<close>

fun typeof :: "jsval \<Rightarrow> string" where
  "typeof JNull = ''object''"
| "typeof (JBool b) = ''boolean''"
| "typeof (JNumber n) = ''number''"
| "typeof (JString s) = ''string''"
| "typeof (JArray xs) = ''object''"
| "typeof (JObject ps) = ''object''"

fun isArray :: "jsval \<Rightarrow> bool" where
  "isArray (JArray xs) = True"
| "isArray v = False"

text \<open>
  Decimal notation of an array index, as used for the property keys of an array;
  \<open>digit_char\<close> is only applied to numbers below ten.
\<close>

definition digit_char :: "nat \<Rightarrow> char" where
  "digit_char n = ''0123456789'' ! n"

fun index_key :: "nat \<Rightarrow> string" where
  "index_key n = (if n < 10 then [digit_char n] else index_key (n div 10) @ [digit_char (n mod 10)])"

declare index_key.simps [simp del]

text \<open>
  The own enumerable properties that object spread \<open>{...v}\<close> copies: the elements of an
  array under their indices, the characters of a string under their indices, the
  properties of an object, and nothing for \<open>null\<close>, a number or a boolean.
\<close>

fun own_properties :: "jsval \<Rightarrow> (string \<times> jsval) list" where
  "own_properties (JArray xs) = zip (map index_key [0..<length xs]) xs"
| "own_properties (JString s) = zip (map index_key [0..<length s]) (map (\<lambda>c. JString [c]) s)"
| "own_properties (JObject ps) = ps"
| "own_properties v = []"

text \<open>
  \<open>{...a, ...b}\<close>: the properties of \<open>a\<close>, then those of \<open>b\<close>, are defined on a fresh
  object one after the other; a key that is already there keeps its place and takes the
  new value.
\<close>

definition spread :: "jsval \<Rightarrow> jsval \<Rightarrow> jsval" where
  "spread a b = JObject (foldl (\<lambda>obj (k, v). AList.update k v obj) [] (own_properties a @ own_properties b))"

section \<open>The storage handle\<close>

text \<open>
  One row of the table \<open>(key TEXT PRIMARY KEY, value TEXT, expiry INTEGER, one_time INTEGER
  DEFAULT 0)\<close>. A \<open>value\<close> column that is \<open>NULL\<close> or the empty text (both falsy in
  JavaScript) is \<open>None\<close>; \<open>expiry\<close> is \<open>None\<close> for \<open>NULL\<close> and otherwise a
  time in milliseconds since the epoch.
\<close>

record row =
  row_value :: "json_text option"
  row_expiry :: "int option"
  row_one_time :: int

text \<open>
  The fields of \<open>SQLiteDatabase\<close> that the operations read or write. \<open>opened\<close> says that
  \<open>this.db\<close> is not \<open>null\<close>; \<open>table\<close> is the content of the table as the connection
  sees it, one pair per row. The order of the rows carries no meaning: no query of the
  program has an \<open>ORDER BY\<close>. The operations are those of one caller at a time. What the
  database engine keeps on disk, the journal mode and the undoing of an open transaction
  when the connection is closed are not part of the model.
\<close>

record store =
  opened :: bool
  table :: "(string \<times> row) list"
  autoCommit :: bool
  inTransaction :: bool

datatype error = NotInitialized | SqliteError

type_synonym 'a result = "(error + 'a) \<times> store"

definition new_database :: "(string \<times> row) list \<Rightarrow> bool \<Rightarrow> store" where
  "new_database file_content auto_commit =
     \<lparr>opened = False, table = file_content, autoCommit = auto_commit, inTransaction = False\<rparr>"

text \<open>
  \<open>init\<close> does nothing on an open handle. Otherwise it opens the handle; the table is
  created only if it does not exist, so the rows of the file stay.
\<close>

definition init :: "store \<Rightarrow> store" where
  "init s = (if opened s then s else s\<lparr>opened := True\<rparr>)"

definition close :: "store \<Rightarrow> unit result" where
  "close s = (if \<not> opened s then (Inl NotInitialized, s) else (Inr (), s\<lparr>opened := False\<rparr>))"

text \<open>
  \<open>BEGIN TRANSACTION\<close> inside a transaction is an error of the database engine; the flag
  \<open>inTransaction\<close> is set after the statement has succeeded.
\<close>

definition beginTransaction :: "store \<Rightarrow> unit result" where
  "beginTransaction s =
     (if \<not> opened s then (Inl NotInitialized, s)
      else if inTransaction s then (Inl SqliteError, s)
      else (Inr (), s\<lparr>inTransaction := True\<rparr>))"

definition commitTransaction :: "store \<Rightarrow> unit result" where
  "commitTransaction s =
     (if \<not> opened s then (Inl NotInitialized, s)
      else if inTransaction s then (Inr (), s\<lparr>inTransaction := False\<rparr>)
      else (Inr (), s))"

text \<open>
  \<open>delete\<close>: the result says whether a row was removed (\<open>result.changes > 0\<close>).
\<close>

definition delete :: "string \<Rightarrow> store \<Rightarrow> bool result" where
  "delete key s =
     (if \<not> opened s then (Inl NotInitialized, s)
      else
        let changes = length (filter (\<lambda>p. fst p = key) (table s));
            s1 = s\<lparr>table := AList.delete key (table s)\<rparr>
        in if autoCommit s1 \<and> \<not> inTransaction s1 then
             (case commitTransaction s1 of
                (Inl e, s2) \<Rightarrow> (Inl e, s2)
              | (Inr u, s2) \<Rightarrow> (Inr (0 < changes), s2))
           else (Inr (0 < changes), s1))"

text \<open>
  The test \<open>result.expiry && typeof result.expiry === "number" && result.expiry < Date.now()\<close>:
  \<open>NULL\<close> and \<open>0\<close> are falsy, and what the column holds otherwise is a number.
\<close>

definition expired :: "int option \<Rightarrow> int \<Rightarrow> bool" where
  "expired e now = (case e of None \<Rightarrow> False | Some t \<Rightarrow> t \<noteq> 0 \<and> t < now)"

text \<open>
  \<open>get\<close>, with the reading of the clock \<open>Date.now()\<close> as the argument \<open>now\<close>. The
  result \<open>JNull\<close> is JavaScript's \<open>null\<close>.
\<close>

definition get :: "string \<Rightarrow> int \<Rightarrow> store \<Rightarrow> jsval result" where
  "get key now s =
     (if \<not> opened s then (Inr JNull, s)
      else case map_of (table s) key of
        None \<Rightarrow> (Inr JNull, s)
      | Some r \<Rightarrow>
         (case row_value r of
            None \<Rightarrow> (Inr JNull, s)
          | Some txt \<Rightarrow>
             if expired (row_expiry r) now then
               (case delete key s of
                  (Inl e, s1) \<Rightarrow> (Inl e, s1)
                | (Inr b, s1) \<Rightarrow> (Inr JNull, s1))
             else if row_one_time r = 1 then
               (case delete key s of
                  (Inl e, s1) \<Rightarrow> (Inl e, s1)
                | (Inr b, s1) \<Rightarrow> (Inr (JSON_parse txt), s1))
             else (Inr (JSON_parse txt), s)))"

text \<open>The merge rule of \<open>setWithExpiry\<close>, in the order of its branches.\<close>

definition resolve :: "jsval \<Rightarrow> jsval \<Rightarrow> jsval" where
  "resolve existingValue v =
     (if existingValue \<noteq> JNull then
        if typeof v = ''string'' then v
        else if isArray existingValue \<and> isArray v then
          (case (existingValue, v) of (JArray xs, JArray ys) \<Rightarrow> JArray (xs @ ys) | _ \<Rightarrow> v)
        else if typeof existingValue = ''object'' \<and> typeof v = ''object'' then
          spread existingValue v
        else v
      else v)"

definition setWithExpiry :: "string \<Rightarrow> jsval \<Rightarrow> int option \<Rightarrow> bool \<Rightarrow> int \<Rightarrow> store \<Rightarrow> bool result" where
  "setWithExpiry key v expiry oneTime now s =
     (if \<not> opened s then (Inl NotInitialized, s)
      else case get key now s of
        (Inl e, s1) \<Rightarrow> (Inl e, s1)
      | (Inr existingValue, s1) \<Rightarrow>
          let newValue = resolve existingValue v;
              jsonValue = JSON_stringify newValue;
              r = \<lparr>row_value = Some jsonValue, row_expiry = expiry,
                   row_one_time = (if oneTime then 1 else 0)\<rparr>;
              s2 = s1\<lparr>table := AList.update key r (table s1)\<rparr>
          in if autoCommit s2 \<and> \<not> inTransaction s2 then
               (case commitTransaction s2 of
                  (Inl e, s3) \<Rightarrow> (Inl e, s3)
                | (Inr u, s3) \<Rightarrow> (Inr True, s3))
             else (Inr True, s2))"

text \<open>\<open>set\<close> (named \<open>set_key\<close> here, \<open>set\<close> being the set of a list in HOL).\<close>

definition set_key :: "string \<Rightarrow> jsval \<Rightarrow> bool \<Rightarrow> int \<Rightarrow> store \<Rightarrow> bool result" where
  "set_key key v oneTime now s = setWithExpiry key v None oneTime now s"

text \<open>
  \<open>SQLiteDatabase.setex(key, seconds, value)\<close> has three parameters and writes the
  one-time flag \<open>false\<close>. The clock is read at \<open>now\<close> for the expiry and again, inside
  \<open>get\<close>, at \<open>now'\<close>. Times are whole milliseconds, \<open>seconds\<close> is taken to be a
  whole number, and the arithmetic is exact.
\<close>

definition setex :: "string \<Rightarrow> int \<Rightarrow> jsval \<Rightarrow> int \<Rightarrow> int \<Rightarrow> store \<Rightarrow> bool result" where
  "setex key seconds v now now' s =
     (let expiry = now + seconds * 1000 in setWithExpiry key v (Some expiry) False now' s)"

text \<open>\<open>ttl\<close>: \<open>None\<close> is \<open>null\<close>.\<close>

definition ttl :: "string \<Rightarrow> int \<Rightarrow> store \<Rightarrow> int option result" where
  "ttl key now s =
     (if \<not> opened s then (Inr None, s)
      else case map_of (table s) key of
        None \<Rightarrow> (Inr None, s)
      | Some r \<Rightarrow>
         (case row_expiry r of
            None \<Rightarrow> (Inr None, s)
          | Some t \<Rightarrow> if t = 0 then (Inr None, s) else (Inr (Some (max (t - now) 0)), s)))"

text \<open>
  \<open>keys\<close>. The pattern is passed to \<open>key LIKE ?\<close> after a backslash has been put in
  front of every \<open>%\<close> and every \<open>_\<close>; the query has no \<open>ESCAPE\<close> clause.
\<close>

definition backslash :: char where
  "backslash = CHR 0x5C"

definition replace_all :: "char \<Rightarrow> string \<Rightarrow> string \<Rightarrow> string" where
  "replace_all c r str = concat (map (\<lambda>x. if x = c then r else [x]) str)"

definition escape_pattern :: "string \<Rightarrow> string" where
  "escape_pattern pattern =
     replace_all (CHR ''_'') [backslash, CHR ''_''] (replace_all (CHR ''%'') [backslash, CHR ''%''] pattern)"

text \<open>
  The \<open>LIKE\<close> operator of SQLite without an \<open>ESCAPE\<close> clause: \<open>%\<close> matches any
  sequence of characters, \<open>_\<close> matches any one character, every other character of the
  pattern (the backslash too) matches itself, upper and lower case of the ASCII letters
  being the same.
\<close>

definition ascii_lower :: "char \<Rightarrow> char" where
  "ascii_lower c =
     (case map_of (zip ''ABCDEFGHIJKLMNOPQRSTUVWXYZ'' ''abcdefghijklmnopqrstuvwxyz'') c of
        None \<Rightarrow> c
      | Some l \<Rightarrow> l)"

fun like :: "string \<Rightarrow> string \<Rightarrow> bool" where
  "like [] [] = True"
| "like [] (c # cs) = False"
| "like (p # ps) [] = (p = CHR ''%'' \<and> like ps [])"
| "like (p # ps) (c # cs) =
     (if p = CHR ''%'' then like ps (c # cs) \<or> like (p # ps) cs
      else (p = CHR ''_'' \<or> ascii_lower p = ascii_lower c) \<and> like ps cs)"

definition keys :: "string option \<Rightarrow> store \<Rightarrow> string list result" where
  "keys pattern s =
     (if \<not> opened s then (Inl NotInitialized, s)
      else case pattern of
        None \<Rightarrow> (Inr (map fst (table s)), s)
      | Some p \<Rightarrow>
          if p = [] then (Inr (map fst (table s)), s)
          else (Inr (filter (like (escape_pattern p)) (map fst (table s))), s))"

section \<open>The public class\<close>

text \<open>
  The constructor of \<open>SQLiteKV\<close> starts \<open>init\<close>, and every method waits for that one
  call to finish before it forwards to the \<open>SQLiteDatabase\<close>; it does not open the handle
  again after \<open>close\<close>. So a method of \<open>SQLiteKV\<close> is the method of the database on the
  store that \<open>init\<close> left, or on what later calls made of it.
\<close>

definition SQLiteKV_new :: "(string \<times> row) list \<Rightarrow> bool \<Rightarrow> store" where
  "SQLiteKV_new file_content auto_commit = init (new_database file_content auto_commit)"

text \<open>
  \<open>SQLiteKV.setex(key, seconds, value, oneTime)\<close> calls
  \<open>this.db.setex(key, seconds, value, oneTime)\<close>; the callee has three parameters, so the
  fourth argument is not read.
\<close>

definition kv_setex :: "string \<Rightarrow> int \<Rightarrow> jsval \<Rightarrow> bool \<Rightarrow> int \<Rightarrow> int \<Rightarrow> store \<Rightarrow> bool result" where
  "kv_setex key seconds v oneTime now now' s = setex key seconds v now now' s"

text \<open>
  \<open>Promise.all(keys.map((key) => this.get(key)))\<close>: one \<open>get\<close> per key, the results in
  the order of the keys. Each key comes with the reading of the clock of its \<open>get\<close>. The
  reads are run one after the other here; for distinct keys the order in which they
  reach the database makes no difference, as a \<open>get\<close> touches the row of its key only.
\<close>

fun get_each :: "(string \<times> int) list \<Rightarrow> store \<Rightarrow> jsval list result" where
  "get_each [] s = (Inr [], s)"
| "get_each ((k, now) # ks) s =
     (case get k now s of
        (Inl e, s1) \<Rightarrow> (Inl e, s1)
      | (Inr v, s1) \<Rightarrow>
         (case get_each ks s1 of
            (Inl e, s2) \<Rightarrow> (Inl e, s2)
          | (Inr vs, s2) \<Rightarrow> (Inr (v # vs), s2)))"

definition mget :: "(string \<times> int) list \<Rightarrow> store \<Rightarrow> jsval list result" where
  "mget ks s =
     (case get_each ks s of
        (Inl e, s1) \<Rightarrow> (Inl e, s1)
      | (Inr vals, s1) \<Rightarrow> (Inr (filter (\<lambda>v. v \<noteq> JNull) vals), s1))"

section \<open>Basic facts about the operations\<close>

lemma parse_stringify: "json_representable v \<Longrightarrow> JSON_parse (JSON_stringify v) = v"
  by (induction v rule: JSON_stringify.induct) (auto simp: list_all_iff intro!: map_idI)

text \<open>
  The implicit commit after a write does nothing: it is only asked for when no transaction
  is open, and then \<open>commitTransaction\<close> has nothing to commit.
\<close>

lemma delete_opened:
  "opened s \<Longrightarrow>
   delete k s = (Inr (0 < length (filter (\<lambda>p. fst p = k) (table s))),
                 s\<lparr>table := AList.delete k (table s)\<rparr>)"
  by (simp add: delete_def commitTransaction_def Let_def)

lemma get_closed: "\<not> opened s \<Longrightarrow> get k now s = (Inr JNull, s)"
  by (simp add: get_def)

lemma get_absent: "map_of (table s) k = None \<Longrightarrow> get k now s = (Inr JNull, s)"
  by (simp add: get_def)

lemma get_present:
  assumes "opened s" "map_of (table s) k = Some r" "row_value r = Some txt"
  shows "get k now s =
    (if expired (row_expiry r) now then (Inr JNull, s\<lparr>table := AList.delete k (table s)\<rparr>)
     else if row_one_time r = 1 then
       (Inr (JSON_parse txt), s\<lparr>table := AList.delete k (table s)\<rparr>)
     else (Inr (JSON_parse txt), s))"
  using assms by (simp add: get_def delete_opened)

text \<open>\<open>get\<close> never throws: it asks for a deletion only on an open handle.\<close>

lemma get_total: "\<exists>v. fst (get k now s) = Inr v"
  by (cases "opened s") (auto simp: get_def delete_opened split: option.splits)

lemma get_opened [simp]: "opened (snd (get k now s)) = opened s"
  by (cases "opened s") (auto simp: get_def delete_opened split: option.splits)

lemma get_autoCommit [simp]: "autoCommit (snd (get k now s)) = autoCommit s"
  by (cases "opened s") (auto simp: get_def delete_opened split: option.splits)

lemma get_inTransaction [simp]: "inTransaction (snd (get k now s)) = inTransaction s"
  by (cases "opened s") (auto simp: get_def delete_opened split: option.splits)

lemma get_other_key:
  "k' \<noteq> k \<Longrightarrow> map_of (table (snd (get k now s))) k' = map_of (table s) k'"
  by (cases "opened s") (auto simp: get_def delete_opened split: option.splits)

text \<open>On an open handle a write succeeds and leaves one new row in place of the old one.\<close>

lemma setWithExpiry_opened:
  assumes "opened s"
  shows "setWithExpiry k v e oneTime now s =
    (Inr True, (snd (get k now s))\<lparr>table := AList.update k
        \<lparr>row_value = Some (JSON_stringify (resolve (projr (fst (get k now s))) v)),
         row_expiry = e, row_one_time = (if oneTime then 1 else 0)\<rparr>
        (table (snd (get k now s)))\<rparr>)"
proof -
  obtain ex where "fst (get k now s) = Inr ex"
    using get_total by blast
  then obtain s1 where g: "get k now s = (Inr ex, s1)"
    by (cases "get k now s") auto
  have "opened s1" "autoCommit s1 = autoCommit s" "inTransaction s1 = inTransaction s"
    using get_opened [of k now s] get_autoCommit [of k now s] get_inTransaction [of k now s]
      assms g by auto
  with assms g show ?thesis
    by (simp add: setWithExpiry_def Let_def commitTransaction_def)
qed

section \<open>Operations on a handle that is not open\<close>

text \<open>
  C6, as the code has it: when the storage handle is not open (before \<open>init\<close> or after
  \<open>close\<close>), \<open>set\<close>, \<open>setex\<close> and \<open>delete\<close> fail with the error
  "Database not initialized" and change nothing, while \<open>get\<close> does not fail: it returns
  \<open>null\<close>, the value it also returns for an absent key.
\<close>

theorem not_initialized_operations:
  assumes "\<not> opened s"
  shows "set_key k v oneTime now s = (Inl NotInitialized, s)
       \<and> setex k seconds v now now' s = (Inl NotInitialized, s)
       \<and> delete k s = (Inl NotInitialized, s)
       \<and> get k now s = (Inr JNull, s)"
  using assms by (simp add: set_key_def setex_def setWithExpiry_def delete_def get_def)

theorem not_initialized_operations_witness:
  "\<not> opened (new_database [] True)
   \<and> set_key ''k'' (JString ''v'') False 0 (new_database [] True)
       = (Inl NotInitialized, new_database [] True)
   \<and> delete ''k'' (new_database [] True) = (Inl NotInitialized, new_database [] True)
   \<and> get ''k'' 0 (new_database [] True) = (Inr JNull, new_database [] True)"
proof -
  have h: "\<not> opened (new_database [] True)"
    by (simp add: new_database_def)
  show ?thesis
    using h not_initialized_operations [OF h, of "''k''" "JString ''v''" False 0 0 0] by simp
qed

text \<open>
  C6 as stated fails for \<open>get\<close>: on a database that was never initialised, and on one
  that was closed, \<open>get\<close> returns \<open>null\<close> and no error.
\<close>

theorem get_not_initialized_counterexample:
  "\<not> opened (new_database [] True)
   \<and> get ''k'' 0 (new_database [] True) = (Inr JNull, new_database [] True)
   \<and> \<not> opened (snd (close (SQLiteKV_new [] True)))
   \<and> get ''k'' 0 (snd (close (SQLiteKV_new [] True)))
       = (Inr JNull, snd (close (SQLiteKV_new [] True)))"
  by (simp add: get_def new_database_def close_def SQLiteKV_new_def init_def)

section \<open>Expiry\<close>

text \<open>
  C10: an entry whose stored expiry is exactly \<open>0\<close> is treated as having no expiry. At
  every reading of the clock \<open>get\<close> returns its value and, unless the entry is a
  one-time entry, leaves the store as it was; \<open>ttl\<close> returns \<open>null\<close> for it.
\<close>

theorem zero_expiry_is_no_expiry:
  assumes "opened s" "map_of (table s) k = Some r" "row_value r = Some txt"
    and "row_expiry r = Some 0"
  shows "fst (get k now s) = Inr (JSON_parse txt)
       \<and> (row_one_time r \<noteq> 1 \<longrightarrow> snd (get k now s) = s)
       \<and> ttl k now s = (Inr None, s)"
  using assms by (simp add: get_present expired_def ttl_def)

theorem zero_expiry_is_no_expiry_witness:
  "opened (SQLiteKV_new [(''k'', \<lparr>row_value = Some (TString ''v''), row_expiry = Some 0,
                                  row_one_time = 0\<rparr>)] True)
   \<and> fst (get ''k'' 1700000000000
        (SQLiteKV_new [(''k'', \<lparr>row_value = Some (TString ''v''), row_expiry = Some 0,
                                  row_one_time = 0\<rparr>)] True)) = Inr (JString ''v'')
   \<and> snd (get ''k'' 1700000000000
        (SQLiteKV_new [(''k'', \<lparr>row_value = Some (TString ''v''), row_expiry = Some 0,
                                  row_one_time = 0\<rparr>)] True))
       = SQLiteKV_new [(''k'', \<lparr>row_value = Some (TString ''v''), row_expiry = Some 0,
                                  row_one_time = 0\<rparr>)] True
   \<and> fst (ttl ''k'' 1700000000000
        (SQLiteKV_new [(''k'', \<lparr>row_value = Some (TString ''v''), row_expiry = Some 0,
                                  row_one_time = 0\<rparr>)] True)) = Inr None"
proof -
  let ?r = "\<lparr>row_value = Some (TString ''v''), row_expiry = Some 0, row_one_time = 0\<rparr>"
  let ?s = "SQLiteKV_new [(''k'', ?r)] True"
  have h1: "opened ?s" and h2: "map_of (table ?s) ''k'' = Some ?r"
    by (simp_all add: SQLiteKV_new_def init_def new_database_def)
  have h3: "row_value ?r = Some (TString ''v'')" and h4: "row_expiry ?r = Some 0"
    by simp_all
  show ?thesis
    using h1 zero_expiry_is_no_expiry [OF h1 h2 h3 h4, of 1700000000000] by simp
qed

text \<open>
  C4, as the code has it: for every stored entry whose expiry is present, is not \<open>0\<close>
  and is strictly less than the current time, \<open>get\<close> deletes the entry and returns
  \<open>null\<close>. The one-time flag of the entry plays no part: the expiry is checked first, so
  an expired one-time entry is deleted without its value being returned.
\<close>

theorem get_expired_entry:
  assumes "opened s" "map_of (table s) k = Some r" "row_value r = Some txt"
    and "row_expiry r = Some e" "e \<noteq> 0" "e < now"
  shows "get k now s = (Inr JNull, s\<lparr>table := AList.delete k (table s)\<rparr>)
       \<and> map_of (table (snd (get k now s))) k = None"
  using assms by (simp add: get_present expired_def AList.delete_conv')

theorem get_expired_entry_witness:
  "opened (SQLiteKV_new [(''k'', \<lparr>row_value = Some (TString ''v''), row_expiry = Some 100,
                                  row_one_time = 1\<rparr>)] True)
   \<and> (100::int) \<noteq> 0 \<and> (100::int) < 200
   \<and> get ''k'' 200
        (SQLiteKV_new [(''k'', \<lparr>row_value = Some (TString ''v''), row_expiry = Some 100,
                                  row_one_time = 1\<rparr>)] True)
       = (Inr JNull, SQLiteKV_new [] True)"
proof -
  let ?r = "\<lparr>row_value = Some (TString ''v''), row_expiry = Some 100, row_one_time = 1\<rparr>"
  let ?s = "SQLiteKV_new [(''k'', ?r)] True"
  have h1: "opened ?s" and h2: "map_of (table ?s) ''k'' = Some ?r"
    by (simp_all add: SQLiteKV_new_def init_def new_database_def)
  have h3: "row_value ?r = Some (TString ''v'')" and h4: "row_expiry ?r = Some 100"
    by simp_all
  have h5: "(100::int) \<noteq> 0" and h6: "(100::int) < 200"
    by simp_all
  show ?thesis
    using h1 get_expired_entry [OF h1 h2 h3 h4 h5 h6]
    by (simp add: SQLiteKV_new_def init_def new_database_def)
qed

text \<open>
  C4 as stated fails when the expiry is \<open>0\<close>. \<open>setex\<close> with \<open>-5\<close> seconds at clock
  reading \<open>5000\<close> stores the expiry \<open>0\<close>; at clock reading \<open>6000\<close> that expiry is
  present and in the past, and \<open>get\<close> returns the value and keeps the entry.
\<close>

theorem get_zero_expiry_counterexample:
  "get ''k'' 6000 (snd (setex ''k'' (- 5) (JString ''v'') 5000 5000 (SQLiteKV_new [] True)))
   = (Inr (JString ''v''),
      \<lparr>opened = True,
       table = [(''k'', \<lparr>row_value = Some (TString ''v''), row_expiry = Some 0,
                             row_one_time = 0\<rparr>)],
       autoCommit = True, inTransaction = False\<rparr>)"
  by (simp add: setex_def setWithExpiry_def get_def expired_def commitTransaction_def
      resolve_def SQLiteKV_new_def init_def new_database_def)

section \<open>Metadata of a write\<close>

text \<open>
  C9: a write replaces the expiry and the one-time flag of the entry by values that depend
  on the call alone, whatever the entry had before. After \<open>set(key, value, oneTime)\<close> the
  entry has no expiry and the one-time flag \<open>oneTime\<close>; after \<open>setex(key, seconds, value)\<close>
  it has the expiry \<open>now + seconds * 1000\<close> and no one-time flag.
\<close>

theorem write_replaces_metadata:
  assumes "opened s"
  shows "(\<exists>txt s'. set_key k v oneTime now s = (Inr True, s') \<and> map_of (table s') k =
            Some \<lparr>row_value = Some txt, row_expiry = None,
                  row_one_time = (if oneTime then 1 else 0)\<rparr>)
       \<and> (\<exists>txt s'. setex k seconds v now now' s = (Inr True, s') \<and> map_of (table s') k =
            Some \<lparr>row_value = Some txt, row_expiry = Some (now + seconds * 1000),
                  row_one_time = 0\<rparr>)"
  using assms by (simp add: set_key_def setex_def setWithExpiry_opened AList.update_conv')

theorem write_replaces_metadata_witness:
  "opened (SQLiteKV_new [(''k'', \<lparr>row_value = Some (TString ''old''), row_expiry = Some 900,
                                  row_one_time = 1\<rparr>)] True)
   \<and> (\<exists>txt s'. set_key ''k'' (JNumber (Finite 7)) False 10
          (SQLiteKV_new [(''k'', \<lparr>row_value = Some (TString ''old''), row_expiry = Some 900,
                                    row_one_time = 1\<rparr>)] True) = (Inr True, s')
        \<and> map_of (table s') ''k'' =
            Some \<lparr>row_value = Some txt, row_expiry = None, row_one_time = 0\<rparr>)
   \<and> (\<exists>txt s'. setex ''k'' 60 (JNumber (Finite 7)) 10 10
          (SQLiteKV_new [(''k'', \<lparr>row_value = Some (TString ''old''), row_expiry = Some 900,
                                    row_one_time = 1\<rparr>)] True) = (Inr True, s')
        \<and> map_of (table s') ''k'' =
            Some \<lparr>row_value = Some txt, row_expiry = Some 60010, row_one_time = 0\<rparr>)"
proof -
  let ?r = "\<lparr>row_value = Some (TString ''old''), row_expiry = Some 900, row_one_time = 1\<rparr>"
  let ?s = "SQLiteKV_new [(''k'', ?r)] True"
  have h: "opened ?s"
    by (simp add: SQLiteKV_new_def init_def new_database_def)
  show ?thesis
    using h write_replaces_metadata [OF h, of "''k''" "JNumber (Finite 7)" False 10 60 10]
    by simp
qed

section \<open>Reading back a write\<close>

lemmas eval_defs = set_key_def setex_def setWithExpiry_def get_def delete_def
  expired_def commitTransaction_def resolve_def SQLiteKV_new_def init_def new_database_def

lemma resolve_absent [simp]: "resolve JNull v = v"
  by (simp add: resolve_def)

lemma get_after_write:
  assumes "opened s" "\<not> expired e now"
  shows "fst (get k now (s\<lparr>table := AList.update k
            \<lparr>row_value = Some txt, row_expiry = e, row_one_time = f\<rparr> (table s)\<rparr>))
         = Inr (JSON_parse txt)"
proof -
  let ?r = "\<lparr>row_value = Some txt, row_expiry = e, row_one_time = f\<rparr>"
  let ?s = "s\<lparr>table := AList.update k ?r (table s)\<rparr>"
  have "opened ?s" "map_of (table ?s) k = Some ?r" "row_value ?r = Some txt"
    using assms by (simp_all add: AList.update_conv')
  from get_present [OF this] assms show ?thesis by simp
qed

text \<open>
  C8, as the code has it: for every value \<open>v\<close> that JSON can represent (a string, a finite
  number, a boolean, \<open>null\<close>, or an array or object of such values) and every key \<open>k\<close>
  previously absent, \<open>get(k)\<close> after \<open>set(k, v)\<close> returns \<open>v\<close>, with the same tag, the
  same array order and the same object properties.
\<close>

theorem set_get_roundtrip:
  assumes "opened s" "map_of (table s) k = None" "json_representable v"
  shows "fst (get k now' (snd (set_key k v oneTime now s))) = Inr v"
proof -
  have g: "get k now s = (Inr JNull, s)"
    using assms(2) by (rule get_absent)
  have "\<not> expired None now'"
    by (simp add: expired_def)
  with assms(1,3) g show ?thesis
    by (simp add: set_key_def setWithExpiry_opened get_after_write parse_stringify)
qed

theorem set_get_roundtrip_witness:
  "opened (SQLiteKV_new [] True)
   \<and> map_of (table (SQLiteKV_new [] True)) ''k'' = None
   \<and> json_representable
        (JObject [(''a'', JArray [JNumber (Finite 1), JBool True, JString ''x''])])
   \<and> fst (get ''k'' 1 (snd (set_key ''k''
        (JObject [(''a'', JArray [JNumber (Finite 1), JBool True, JString ''x''])]) False 0
        (SQLiteKV_new [] True))))
       = Inr (JObject [(''a'', JArray [JNumber (Finite 1), JBool True, JString ''x''])])"
proof -
  let ?v = "JObject [(''a'', JArray [JNumber (Finite 1), JBool True, JString ''x''])]"
  have h: "opened (SQLiteKV_new [] True)"
    and a: "map_of (table (SQLiteKV_new [] True)) ''k'' = None"
    by (simp_all add: SQLiteKV_new_def init_def new_database_def)
  have j: "json_representable ?v"
    by simp
  from set_get_roundtrip [OF h a j, of 1 False 0] h a j show ?thesis
    by blast
qed

text \<open>
  C8 as stated fails for the numbers that JSON cannot write: \<open>NaN\<close> is stored as the text
  \<open>null\<close>, and \<open>get\<close> returns \<open>null\<close>.
\<close>

theorem roundtrip_nan_counterexample:
  "fst (get ''k'' 1 (snd (set_key ''k'' (JNumber NaN) False 0 (SQLiteKV_new [] True))))
   = Inr JNull"
  by (simp add: eval_defs)

section \<open>One-time entries\<close>

text \<open>
  C5, as the code has it: after \<open>set(k, v, oneTime=true)\<close> the first \<open>get(k)\<close> returns
  the value that the write stored and deletes the entry, and every subsequent \<open>get(k)\<close>
  returns \<open>null\<close>. The value stored is the result of the merge rule on what \<open>k\<close> held
  before, as JSON writes it; it is \<open>v\<close> itself when \<open>k\<close> was absent before and JSON can
  represent \<open>v\<close>.
\<close>

theorem one_time_read_once:
  assumes "opened s"
  shows "fst (get k t1 (snd (set_key k v True now s)))
           = Inr (JSON_parse (JSON_stringify (resolve (projr (fst (get k now s))) v)))
       \<and> (\<forall>t2. get k t2 (snd (get k t1 (snd (set_key k v True now s))))
               = (Inr JNull, snd (get k t1 (snd (set_key k v True now s)))))
       \<and> (map_of (table s) k = None \<longrightarrow> json_representable v \<longrightarrow>
            fst (get k t1 (snd (set_key k v True now s))) = Inr v)"
proof -
  let ?txt = "JSON_stringify (resolve (projr (fst (get k now s))) v)"
  let ?r = "\<lparr>row_value = Some ?txt, row_expiry = None, row_one_time = 1\<rparr>"
  let ?s0 = "snd (get k now s)"
  let ?s1 = "?s0\<lparr>table := AList.update k ?r (table ?s0)\<rparr>"
  let ?s2 = "?s1\<lparr>table := AList.delete k (table ?s1)\<rparr>"
  have s1: "snd (set_key k v True now s) = ?s1"
    using assms by (simp add: set_key_def setWithExpiry_opened)
  have "opened ?s1" "map_of (table ?s1) k = Some ?r" "row_value ?r = Some ?txt"
    using assms by (simp_all add: AList.update_conv')
  from get_present [OF this, of t1]
  have g1: "get k t1 ?s1 = (Inr (JSON_parse ?txt), ?s2)"
    by (simp add: expired_def)
  have "map_of (table ?s2) k = None"
    by (simp add: AList.delete_conv')
  then have g2: "\<forall>t2. get k t2 ?s2 = (Inr JNull, ?s2)"
    by (simp add: get_absent)
  have "JSON_parse ?txt = v" if "map_of (table s) k = None" "json_representable v"
    using that by (simp add: get_absent parse_stringify)
  with s1 g1 g2 show ?thesis by simp
qed

theorem one_time_read_once_witness:
  "opened (SQLiteKV_new [] True)
   \<and> map_of (table (SQLiteKV_new [] True)) ''k'' = None
   \<and> json_representable (JString ''v'')
   \<and> fst (get ''k'' 1 (snd (set_key ''k'' (JString ''v'') True 0 (SQLiteKV_new [] True))))
       = Inr (JString ''v'')
   \<and> fst (get ''k'' 2 (snd (get ''k'' 1
        (snd (set_key ''k'' (JString ''v'') True 0 (SQLiteKV_new [] True)))))) = Inr JNull"
proof -
  have h: "opened (SQLiteKV_new [] True)"
    and a: "map_of (table (SQLiteKV_new [] True)) ''k'' = None"
    by (simp_all add: SQLiteKV_new_def init_def new_database_def)
  have j: "json_representable (JString ''v'')"
    by simp
  note t = one_time_read_once [OF h, of "''k''" 1 "JString ''v''" 0]
  from t a j have "fst (get ''k'' 1 (snd (set_key ''k'' (JString ''v'') True 0
      (SQLiteKV_new [] True)))) = Inr (JString ''v'')"
    by blast
  moreover from t have "get ''k'' 2 (snd (get ''k'' 1 (snd (set_key ''k'' (JString ''v'') True 0
      (SQLiteKV_new [] True))))) = (Inr JNull, snd (get ''k'' 1 (snd (set_key ''k''
      (JString ''v'') True 0 (SQLiteKV_new [] True)))))"
    by blast
  ultimately show ?thesis
    using h a j by simp
qed

text \<open>
  C5 as stated fails on a key that holds an array already: the write appends, and the
  first \<open>get\<close> returns the longer array, not the \<open>v\<close> of the call.
\<close>

theorem one_time_merge_counterexample:
  "fst (get ''k'' 2 (snd (set_key ''k'' (JArray [JNumber (Finite 2)]) True 1
        (snd (set_key ''k'' (JArray [JNumber (Finite 1)]) False 0 (SQLiteKV_new [] True))))))
   = Inr (JArray [JNumber (Finite 1), JNumber (Finite 2)])"
  by (simp add: eval_defs)

section \<open>The merge rule\<close>

lemma isArray_typeof: "isArray x \<Longrightarrow> typeof x = ''object''"
  by (cases x) simp_all

lemma resolve_replace:
  "typeof existing \<noteq> ''object'' \<or> typeof v \<noteq> ''object'' \<Longrightarrow> resolve existing v = v"
  by (auto simp: resolve_def dest: isArray_typeof)

text \<open>
  C1, as the code has it: for every write to an existing key where the incoming value is
  not a string and the existing and the incoming value are not both of \<open>typeof\<close>
  \<open>object\<close> (so one of them is a number or a boolean, or the existing one is a string),
  the write stores the incoming value unchanged, with the expiry and the one-time flag of
  the call. A subsequent \<open>get\<close> made before that expiry has passed returns the incoming
  value, provided JSON can represent it.
\<close>

theorem full_replace_on_type_mismatch:
  assumes "opened s" "fst (get k now s) = Inr existing" "existing \<noteq> JNull"
    and "typeof v \<noteq> ''string''"
    and "typeof existing \<noteq> ''object'' \<or> typeof v \<noteq> ''object''"
  shows "\<exists>s'. setWithExpiry k v e oneTime now s = (Inr True, s')
       \<and> map_of (table s') k = Some \<lparr>row_value = Some (JSON_stringify v), row_expiry = e,
                                       row_one_time = (if oneTime then 1 else 0)\<rparr>
       \<and> (json_representable v \<longrightarrow> \<not> expired e now' \<longrightarrow> fst (get k now' s') = Inr v)"
proof -
  have r: "resolve existing v = v"
    using assms(5) by (rule resolve_replace)
  have o: "opened (snd (get k now s))"
    using assms(1) by simp
  show ?thesis
    using assms(1,2) r get_after_write [OF o]
    by (simp add: setWithExpiry_opened AList.update_conv' parse_stringify)
qed

theorem full_replace_on_type_mismatch_witness:
  "opened (SQLiteKV_new [(''k'', \<lparr>row_value = Some (TObject [(''a'', TNumber 1)]),
                                  row_expiry = None, row_one_time = 0\<rparr>)] True)
   \<and> fst (get ''k'' 0 (SQLiteKV_new [(''k'', \<lparr>row_value = Some (TObject [(''a'', TNumber 1)]),
                                  row_expiry = None, row_one_time = 0\<rparr>)] True))
       = Inr (JObject [(''a'', JNumber (Finite 1))])
   \<and> typeof (JNumber (Finite 5)) \<noteq> ''string''
   \<and> typeof (JNumber (Finite 5)) \<noteq> ''object''
   \<and> json_representable (JNumber (Finite 5))
   \<and> \<not> expired None 1
   \<and> (\<exists>s'. setWithExpiry ''k'' (JNumber (Finite 5)) None False 0
          (SQLiteKV_new [(''k'', \<lparr>row_value = Some (TObject [(''a'', TNumber 1)]),
                                    row_expiry = None, row_one_time = 0\<rparr>)] True)
          = (Inr True, s')
        \<and> map_of (table s') ''k'' = Some \<lparr>row_value = Some (TNumber 5), row_expiry = None,
                                            row_one_time = 0\<rparr>
        \<and> fst (get ''k'' 1 s') = Inr (JNumber (Finite 5)))"
proof -
  let ?r = "\<lparr>row_value = Some (TObject [(''a'', TNumber 1)]), row_expiry = None,
             row_one_time = 0\<rparr>"
  let ?s = "SQLiteKV_new [(''k'', ?r)] True"
  have h1: "opened ?s"
    by (simp add: SQLiteKV_new_def init_def new_database_def)
  have h2: "fst (get ''k'' 0 ?s) = Inr (JObject [(''a'', JNumber (Finite 1))])"
    by (simp add: eval_defs)
  have h3: "JObject [(''a'', JNumber (Finite 1))] \<noteq> JNull"
    and h4: "typeof (JNumber (Finite 5)) \<noteq> ''string''"
    and h5: "typeof (JObject [(''a'', JNumber (Finite 1))]) \<noteq> ''object''
             \<or> typeof (JNumber (Finite 5)) \<noteq> ''object''"
    and h6: "json_representable (JNumber (Finite 5))" and h7: "\<not> expired None 1"
    by (simp_all add: expired_def)
  from full_replace_on_type_mismatch [OF h1 h2 h3 h4 h5, of None False 1] h6 h7
  have "\<exists>s'. setWithExpiry ''k'' (JNumber (Finite 5)) None False 0 ?s = (Inr True, s')
        \<and> map_of (table s') ''k'' = Some \<lparr>row_value = Some (TNumber 5), row_expiry = None,
                                            row_one_time = 0\<rparr>
        \<and> fst (get ''k'' 1 s') = Inr (JNumber (Finite 5))"
    by simp
  with h1 h2 h4 h6 h7 show ?thesis
    by simp
qed

text \<open>
  C1 as stated fails on its own first example. With an array stored and an object
  incoming, both values are of \<open>typeof\<close> \<open>object\<close>, so the write takes the branch of the
  object merge and stores the elements of the array under their indices together with the
  properties of the object. It also fails for an incoming \<open>NaN\<close>, which is stored as
  \<open>null\<close> and read back as \<open>null\<close>.
\<close>

theorem merge_mismatch_counterexample:
  "fst (get ''k'' 2 (snd (set_key ''k'' (JObject [(''a'', JNumber (Finite 2))]) False 1
        (snd (set_key ''k'' (JArray [JNumber (Finite 1)]) False 0 (SQLiteKV_new [] True))))))
   = Inr (JObject [(''0'', JNumber (Finite 1)), (''a'', JNumber (Finite 2))])
   \<and> fst (get ''k'' 2 (snd (set_key ''k'' (JNumber NaN) False 1
        (snd (set_key ''k'' (JObject [(''a'', JNumber (Finite 2))]) False 0
          (SQLiteKV_new [] True))))))
   = Inr JNull"
  by (simp add: eval_defs spread_def index_key.simps digit_char_def)

section \<open>The one-time argument of setex\<close>

text \<open>
  C2: \<open>setex(key, ttlSeconds, value, oneTime=true)\<close> is meant to store an entry that is
  read once. The code stores the expiry but not the flag: on an empty store,
  \<open>setex("k", 60, "v", true)\<close> writes the row with \<open>one_time = 0\<close>, and a first and a second
  \<open>get("k")\<close> within the minute both return \<open>"v"\<close>.
\<close>

theorem setex_one_time_flag_dropped:
  "table (snd (kv_setex ''k'' 60 (JString ''v'') True 0 0 (SQLiteKV_new [] True)))
     = [(''k'', \<lparr>row_value = Some (TString ''v''), row_expiry = Some 60000,
                  row_one_time = 0\<rparr>)]
   \<and> fst (get ''k'' 1 (snd (kv_setex ''k'' 60 (JString ''v'') True 0 0 (SQLiteKV_new [] True))))
     = Inr (JString ''v'')
   \<and> fst (get ''k'' 2 (snd (get ''k'' 1
        (snd (kv_setex ''k'' 60 (JString ''v'') True 0 0 (SQLiteKV_new [] True))))))
     = Inr (JString ''v'')"
  by (simp add: kv_setex_def eval_defs)

section \<open>Reading several keys\<close>

lemma get_value_cong:
  assumes "opened s = opened s'" "map_of (table s) k = map_of (table s') k"
  shows "fst (get k now s) = fst (get k now s')"
  using assms by (cases "opened s") (auto simp: get_def delete_opened split: option.splits)

text \<open>
  Reading one key leaves the rows of the other keys alone, so the reads of distinct keys
  do not depend on their order.
\<close>

lemma get_each_distinct:
  assumes "distinct (map fst ks)" "opened s1 = opened s"
    and "\<forall>k\<in>fst ` set ks. map_of (table s1) k = map_of (table s) k"
  shows "fst (get_each ks s1) = Inr (map (\<lambda>(k, now). projr (fst (get k now s))) ks)"
  using assms
proof (induction ks arbitrary: s1)
  case Nil
  then show ?case by simp
next
  case (Cons p ks)
  obtain k now where p: "p = (k, now)"
    by (cases p)
  obtain v where v: "fst (get k now s1) = Inr v"
    using get_total by blast
  then obtain s2 where g: "get k now s1 = (Inr v, s2)"
    by (cases "get k now s1") auto
  have same: "fst (get k now s1) = fst (get k now s)"
    using Cons.prems p by (intro get_value_cong) auto
  have s2: "s2 = snd (get k now s1)"
    using g by simp
  have "opened s2 = opened s"
    using Cons.prems(2) s2 by simp
  moreover have "\<forall>k'\<in>fst ` set ks. map_of (table s2) k' = map_of (table s) k'"
  proof
    fix k' assume k': "k' \<in> fst ` set ks"
    with Cons.prems(1) p have "k' \<noteq> k" by auto
    then have "map_of (table s2) k' = map_of (table s1) k'"
      unfolding s2 by (rule get_other_key)
    moreover have "map_of (table s1) k' = map_of (table s) k'"
      using k' Cons.prems(3) by auto
    ultimately show "map_of (table s2) k' = map_of (table s) k'" by simp
  qed
  ultimately have
    "fst (get_each ks s2) = Inr (map (\<lambda>(k, now). projr (fst (get k now s))) ks)"
    using Cons.IH Cons.prems(1) by simp
  then show ?case
    using g v same p by (auto split: prod.splits sum.splits)
qed

text \<open>
  C3, as the code has it: for every list of distinct keys, \<open>mget\<close> returns what \<open>get\<close>
  returns for each key, in the order of the keys, with the \<open>null\<close> results of the absent
  keys left out. The result has one position per present key, not one per input key.
\<close>

theorem mget_omits_absent_keys:
  assumes "distinct (map fst ks)"
  shows "fst (mget ks s)
         = Inr (filter (\<lambda>v. v \<noteq> JNull) (map (\<lambda>(k, now). projr (fst (get k now s))) ks))"
  using get_each_distinct [OF assms, of s s]
  by (auto simp: mget_def split: prod.splits sum.splits)

theorem mget_omits_absent_keys_witness:
  "distinct (map fst [(''k1'', 1::int), (''k2'', 1), (''k3'', 2)])
   \<and> fst (mget [(''k1'', 1), (''k2'', 1), (''k3'', 2)]
        (SQLiteKV_new [(''k3'', \<lparr>row_value = Some (TString ''c''), row_expiry = None,
                                  row_one_time = 0\<rparr>),
                       (''k1'', \<lparr>row_value = Some (TString ''a''), row_expiry = None,
                                  row_one_time = 0\<rparr>)] True))
       = Inr [JString ''a'', JString ''c'']"
proof -
  have d: "distinct (map fst [(''k1'', 1::int), (''k2'', 1), (''k3'', 2)])"
    by simp
  show ?thesis
    using d mget_omits_absent_keys [OF d, of
        "SQLiteKV_new [(''k3'', \<lparr>row_value = Some (TString ''c''), row_expiry = None,
                                  row_one_time = 0\<rparr>),
                       (''k1'', \<lparr>row_value = Some (TString ''a''), row_expiry = None,
                                  row_one_time = 0\<rparr>)] True"]
    by (simp add: get_def expired_def SQLiteKV_new_def init_def new_database_def)
qed

text \<open>
  C3 as stated fails whenever a key is absent. With \<open>k1\<close> stored and \<open>k2\<close> absent the
  result has one position for two keys; with \<open>k1\<close> absent and \<open>k2\<close> stored the value of
  \<open>k2\<close> stands at the first position.
\<close>

theorem mget_alignment_counterexample:
  "fst (mget [(''k1'', 1), (''k2'', 1)]
        (snd (set_key ''k1'' (JString ''v1'') False 0 (SQLiteKV_new [] True))))
   = Inr [JString ''v1'']
   \<and> fst (mget [(''k1'', 1), (''k2'', 1)]
        (snd (set_key ''k2'' (JString ''v2'') False 0 (SQLiteKV_new [] True))))
   = Inr [JString ''v2'']"
  by (simp add: mget_def eval_defs)

section \<open>Listing keys\<close>

lemma replace_all_absent: "c \<notin> set str \<Longrightarrow> replace_all c r str = str"
  by (induction str) (auto simp: replace_all_def)

lemma escape_pattern_plain:
  "CHR ''%'' \<notin> set p \<Longrightarrow> CHR ''_'' \<notin> set p \<Longrightarrow> escape_pattern p = p"
  by (simp add: escape_pattern_def replace_all_absent)

lemma like_plain:
  "CHR ''%'' \<notin> set p \<Longrightarrow> CHR ''_'' \<notin> set p \<Longrightarrow>
   like p k \<longleftrightarrow> map ascii_lower p = map ascii_lower k"
proof (induction p arbitrary: k)
  case Nil
  then show ?case by (cases k) simp_all
next
  case (Cons c p)
  then show ?case by (cases k) auto
qed

text \<open>
  C7, as the code has it: for a pattern that contains neither \<open>%\<close> nor \<open>_\<close>, \<open>keys(pattern)\<close>
  returns exactly the stored keys that are equal to the pattern up to the case of ASCII
  letters; without a pattern, or with the empty pattern, it returns all stored keys.
\<close>

theorem keys_plain_pattern:
  assumes "opened s" "p \<noteq> []" "CHR ''%'' \<notin> set p" "CHR ''_'' \<notin> set p"
  shows "keys (Some p) s
           = (Inr (filter (\<lambda>k. map ascii_lower p = map ascii_lower k) (map fst (table s))), s)
       \<and> keys None s = (Inr (map fst (table s)), s)
       \<and> keys (Some []) s = (Inr (map fst (table s)), s)"
  using assms by (simp add: keys_def escape_pattern_plain like_plain cong: filter_cong)

theorem keys_plain_pattern_witness:
  "opened (SQLiteKV_new [(''Apple'', \<lparr>row_value = Some (TNumber 1), row_expiry = None,
                                      row_one_time = 0\<rparr>),
                         (''apples'', \<lparr>row_value = Some (TNumber 2), row_expiry = None,
                                       row_one_time = 0\<rparr>),
                         (''apple'', \<lparr>row_value = Some (TNumber 3), row_expiry = None,
                                      row_one_time = 0\<rparr>)] True)
   \<and> ''APPLE'' \<noteq> [] \<and> CHR ''%'' \<notin> set ''APPLE'' \<and> CHR ''_'' \<notin> set ''APPLE''
   \<and> fst (keys (Some ''APPLE'')
        (SQLiteKV_new [(''Apple'', \<lparr>row_value = Some (TNumber 1), row_expiry = None,
                                      row_one_time = 0\<rparr>),
                       (''apples'', \<lparr>row_value = Some (TNumber 2), row_expiry = None,
                                      row_one_time = 0\<rparr>),
                       (''apple'', \<lparr>row_value = Some (TNumber 3), row_expiry = None,
                                      row_one_time = 0\<rparr>)] True))
       = Inr [''Apple'', ''apple'']"
proof -
  let ?s = "SQLiteKV_new [(''Apple'', \<lparr>row_value = Some (TNumber 1), row_expiry = None,
                                      row_one_time = 0\<rparr>),
                         (''apples'', \<lparr>row_value = Some (TNumber 2), row_expiry = None,
                                       row_one_time = 0\<rparr>),
                         (''apple'', \<lparr>row_value = Some (TNumber 3), row_expiry = None,
                                      row_one_time = 0\<rparr>)] True"
  have h1: "opened ?s"
    by (simp add: SQLiteKV_new_def init_def new_database_def)
  have h2: "''APPLE'' \<noteq> []" and h3: "CHR ''%'' \<notin> set ''APPLE''"
    and h4: "CHR ''_'' \<notin> set ''APPLE''"
    by simp_all
  have "table ?s = [(''Apple'', \<lparr>row_value = Some (TNumber 1), row_expiry = None,
                                      row_one_time = 0\<rparr>),
                         (''apples'', \<lparr>row_value = Some (TNumber 2), row_expiry = None,
                                       row_one_time = 0\<rparr>),
                         (''apple'', \<lparr>row_value = Some (TNumber 3), row_expiry = None,
                                      row_one_time = 0\<rparr>)]"
    by (simp add: SQLiteKV_new_def init_def new_database_def)
  with keys_plain_pattern [OF h1 h2 h3 h4]
  have "fst (keys (Some ''APPLE'') ?s) = Inr [''Apple'', ''apple'']"
    by (simp add: ascii_lower_def)
  with h1 h2 h3 h4 show ?thesis
    by blast
qed

text \<open>
  C7 as stated fails for a pattern with a wildcard. \<open>keys("a%")\<close> asks for
  \<open>key LIKE 'a\%'\<close>, and with no \<open>ESCAPE\<close> clause the backslash stands for itself: the
  stored key \<open>apple\<close> begins with \<open>a\<close> and matches \<open>a%\<close>, but it is not returned.
\<close>

theorem keys_wildcard_counterexample:
  "fst (keys (Some ''a%'')
        (snd (set_key ''apple'' (JString ''v'') False 0 (SQLiteKV_new [] True)))) = Inr []
   \<and> fst (keys None
        (snd (set_key ''apple'' (JString ''v'') False 0 (SQLiteKV_new [] True))))
       = Inr [''apple'']
   \<and> like ''a%'' ''apple''"
  by (simp add: keys_def eval_defs escape_pattern_def replace_all_def backslash_def
      ascii_lower_def)

end
